theory Spec2Isabelle
  imports Main "HOL-Library.Word"
begin

section \<open>The serialization transport of the BLE driver\<close>

text \<open>
  This theory embeds \<^verbatim>\<open>src/common/transport/serialization_transport.cpp\<close>: the class
  \<^verbatim>\<open>SerializationTransport\<close> with its operations \<^verbatim>\<open>open\<close>, \<^verbatim>\<open>close\<close>,
  \<^verbatim>\<open>send\<close>, \<^verbatim>\<open>drainEventQueue\<close>, the body of the event thread and the
  demultiplex callback \<^verbatim>\<open>readHandler\<close>.

  The object is a record of its member variables. Everything an operation does to the
  world outside the object (log lines, notifications of the two condition variables, calls
  on the link layer, thread spawn and join, callbacks into the application) is appended to
  the field \<open>trace\<close>, so that "no side effect" is "the trace did not grow".

  Each operation is modelled as one atomic step of the calling thread. What the other
  threads and the link layer contribute to a call is passed as arguments: the status the
  link layer returns, whether \<^verbatim>\<open>join\<close> throws, the identifier of the thread that calls,
  the payloads that reach \<^verbatim>\<open>readHandler\<close> while \<^verbatim>\<open>send\<close> waits.
\<close>

subsection \<open>Types\<close>

type_synonym byte = "8 word"

text \<open>\<^verbatim>\<open>size_t\<close> on the 64-bit hosts the driver is built for: arithmetic wraps modulo \<open>2^64\<close>.\<close>

type_synonym size_t = "64 word"

type_synonym thread_id = nat

text \<open>A \<^verbatim>\<open>std::function\<close> is an opaque handle; \<open>None\<close> is the empty function (\<^verbatim>\<open>nullptr\<close>).\<close>

type_synonym callback = "nat option"

text \<open>
  The status codes are macros of a header that is not part of the sources at hand. They are
  kept symbolic: one constructor for each name the file uses, distinct names being distinct
  codes, and \<open>OTHER_STATUS\<close> for every other code the link layer may return.
\<close>

datatype status =
    NRF_SUCCESS
  | NRF_ERROR_SD_RPC_SERIALIZATION_TRANSPORT
  | NRF_ERROR_SD_RPC_SERIALIZATION_TRANSPORT_ALREADY_OPEN
  | NRF_ERROR_SD_RPC_SERIALIZATION_TRANSPORT_ALREADY_CLOSED
  | NRF_ERROR_SD_RPC_SERIALIZATION_TRANSPORT_INVALID_STATE
  | NRF_ERROR_SD_RPC_SERIALIZATION_TRANSPORT_NO_RESPONSE
  | OTHER_STATUS nat

text \<open>
  The enumerators of \<^verbatim>\<open>serialization_pkt_type_t\<close> that \<^verbatim>\<open>readHandler\<close> compares the
  first byte with are declared in a header that is not part of the sources either: their
  values are parameters of the model.
\<close>

record pkt_types =
  SERIALIZATION_RESPONSE :: byte
  SERIALIZATION_EVENT :: byte

datatype log_level = LOG_WARN | LOG_ERROR | LOG_CRITICAL

datatype condvar = responseWaitCondition | eventWaitCondition

datatype effect =
    Log log_level string
  | Notify_one condvar
  | Notify_all condvar
  | Wait condvar
  | LinkOpen callback callback
  | LinkSend "byte list"
  | LinkClose
  | Spawn thread_id
  | Join thread_id
  | EventCallback "byte list"
  | Log_decode_error status
  | StatusCallback status

text \<open>
  The member variables. \<open>responseBuffer\<close> is the vector behind the shared pointer
  (\<open>None\<close> for \<^verbatim>\<open>nullptr\<close>): the caller of \<^verbatim>\<open>send\<close> holds the same vector, so what
  the caller finds in its reply buffer afterwards is this field. \<open>eventThread\<close> is
  \<open>Some t\<close> when the \<^verbatim>\<open>std::thread\<close> member is joinable, with \<open>t\<close> its identifier.
  \<open>eventThreadFailed\<close> is not a member: it records that the body of the event thread
  has left through its exception handler (lines 261 to 265), after which that thread
  dispatches nothing more.
\<close>

record SerializationTransport =
  statusCallback :: callback
  eventCallback :: callback
  logCallback :: callback
  responseReceived :: bool
  responseBuffer :: "byte list option"
  processEvents :: bool
  isOpen :: bool
  responseTimeout :: "32 word"
  eventQueue :: "byte list list"
  eventThread :: "thread_id option"
  eventThreadFailed :: bool
  trace :: "effect list"

text \<open>
  Reading memory that is not there and asking a vector for more than it can hold have no
  defined result in the source; the model returns this fault instead.
\<close>

datatype fault = OutOfBounds

subsection \<open>Constructor\<close>

definition new_SerializationTransport :: "32 word \<Rightarrow> SerializationTransport" where
  "new_SerializationTransport response_timeout =
     \<lparr> statusCallback = None, eventCallback = None, logCallback = None,
       responseReceived = False, responseBuffer = None, processEvents = False,
       isOpen = False, responseTimeout = response_timeout, eventQueue = [],
       eventThread = None, eventThreadFailed = False, trace = [] \<rparr>"

subsection \<open>Vector primitives\<close>

text \<open>\<^verbatim>\<open>std::copy(first, last, d.begin() + off)\<close>, for a source that fits into \<open>d\<close>.\<close>

definition std_copy :: "'a list \<Rightarrow> 'a list \<Rightarrow> nat \<Rightarrow> 'a list" where
  "std_copy src d off = take off d @ src @ drop (off + length src) d"

text \<open>\<^verbatim>\<open>std::copy(first, last, std::back_inserter(d))\<close>: every element is pushed behind \<open>d\<close>.\<close>

definition std_copy_back :: "'a list \<Rightarrow> 'a list \<Rightarrow> 'a list" where
  "std_copy_back src d = d @ src"

text \<open>\<^verbatim>\<open>v.resize(n)\<close>: cut, or fill with value-initialised elements.\<close>

definition resize :: "nat \<Rightarrow> byte list \<Rightarrow> byte list" where
  "resize n v = take n v @ replicate (n - length v) 0"

subsection \<open>The demultiplex callback\<close>

text \<open>
  \<^verbatim>\<open>readHandler(data, length)\<close>. The argument \<open>data\<close> is the memory that can be read at
  the pointer, \<open>len\<close> the length argument. \<^verbatim>\<open>data[0]\<close> is read before anything else,
  even when nothing can be read; \<open>dataLength\<close> is computed in \<^verbatim>\<open>size_t\<close>.
\<close>

definition dataLength :: "size_t \<Rightarrow> size_t" where
  "dataLength len = len - 1"

definition readHandler ::
  "pkt_types \<Rightarrow> SerializationTransport \<Rightarrow> byte list \<Rightarrow> size_t \<Rightarrow> fault + SerializationTransport"
where
  "readHandler T st data len =
     (case data of
        [] \<Rightarrow> Inl OutOfBounds
      | eventType # startOfData \<Rightarrow>
          let n = unat (dataLength len) in
          if eventType = SERIALIZATION_RESPONSE T then
            (case (case responseBuffer st of
                     None \<Rightarrow> Inr (st\<lparr>trace := trace st @ [Log LOG_ERROR
                       ''Received SERIALIZATION_RESPONSE but command did not provide a buffer for the reply.'']\<rparr>)
                   | Some buf \<Rightarrow>
                       if buf = [] then
                         Inr (st\<lparr>trace := trace st @ [Log LOG_ERROR
                           ''Received SERIALIZATION_RESPONSE but command did not provide a buffer for the reply.'']\<rparr>)
                       else if length buf \<ge> n then
                         (if n \<le> length startOfData
                          then Inr (st\<lparr>responseBuffer :=
                                 Some (resize n (std_copy (take n startOfData) buf 0))\<rparr>)
                          else Inl OutOfBounds)
                       else
                         Inr (st\<lparr>trace := trace st @ [Log LOG_ERROR
                           ''Received SERIALIZATION_RESPONSE with a packet that is larger than the allocated buffer.'']\<rparr>))
             of
               Inl f \<Rightarrow> Inl f
             | Inr st1 \<Rightarrow>
                 Inr (st1\<lparr>responseReceived := True,
                          trace := trace st1 @ [Notify_one responseWaitCondition]\<rparr>))
          else if eventType = SERIALIZATION_EVENT T then
            (if n \<le> length startOfData
             then Inr (st\<lparr>eventQueue := eventQueue st @ [std_copy_back (take n startOfData) []],
                         trace := trace st @ [Notify_one eventWaitCondition]\<rparr>)
             else Inl OutOfBounds)
          else
            Inr (st\<lparr>trace := trace st @ [Log LOG_WARN
              ''Unknown Nordic Semiconductor vendor specific packet received'']\<rparr>))"

subsection \<open>send\<close>

text \<open>
  Lines 147 to 149: a vector of \<open>size + 1\<close> zero bytes, the packet type stored at index 0,
  the command copied behind it.
\<close>

definition commandBuffer :: "byte list \<Rightarrow> byte \<Rightarrow> byte list" where
  "commandBuffer cmdBuffer pktType =
     std_copy cmdBuffer ((replicate (length cmdBuffer + 1) 0)[0 := pktType]) 1"

text \<open>
  \<^verbatim>\<open>dataCallback\<close> is \<^verbatim>\<open>readHandler\<close> bound to the object (line 52), the callback
  given to the link layer, which calls it with a payload's bytes and their number.
\<close>

definition dataCallback ::
  "pkt_types \<Rightarrow> SerializationTransport \<Rightarrow> byte list \<Rightarrow> fault + SerializationTransport"
where
  "dataCallback T st payload = readHandler T st payload (word_of_nat (length payload))"

text \<open>The link layer's thread calling the callback for one payload after the other.\<close>

fun dataCallback_each ::
  "pkt_types \<Rightarrow> SerializationTransport \<Rightarrow> byte list list \<Rightarrow> fault + SerializationTransport"
where
  "dataCallback_each T st [] = Inr st"
| "dataCallback_each T st (payload # inbound) =
     (case dataCallback T st payload of
        Inl f \<Rightarrow> Inl f
      | Inr st' \<Rightarrow> dataCallback_each T st' inbound)"

text \<open>
  \<^verbatim>\<open>responseWaitCondition.wait_until(guard, wakeupTime, [&] { return responseReceived; })\<close>.
  While the sending thread is blocked the link layer's thread goes on calling the callback,
  which tests neither \<open>responseReceived\<close> nor whether anybody waits. The argument
  \<open>inbound\<close> lists, in order, all the payloads handed to the callback from the transmit
  until the sending thread runs again, woken by a notification or by the deadline; every
  one of them is handled. What the wait returns is the predicate, which \<^verbatim>\<open>send\<close>
  reads again in line 170.
\<close>

definition wait_until ::
  "pkt_types \<Rightarrow> SerializationTransport \<Rightarrow> byte list list \<Rightarrow> fault + SerializationTransport"
where
  "wait_until T st inbound = dataCallback_each T st inbound"

text \<open>
  \<^verbatim>\<open>send(cmdBuffer, rspBuffer, pktType)\<close>; \<open>errCode\<close> is what
  \<^verbatim>\<open>nextTransportLayer->send\<close> returns.
\<close>

definition send ::
  "pkt_types \<Rightarrow> SerializationTransport \<Rightarrow> byte list \<Rightarrow> byte list option \<Rightarrow> byte \<Rightarrow> status \<Rightarrow>
   byte list list \<Rightarrow> fault + (status \<times> SerializationTransport)"
where
  "send T st cmdBuffer rspBuffer pktType errCode inbound =
     (if \<not> isOpen st then Inr (NRF_ERROR_SD_RPC_SERIALIZATION_TRANSPORT_INVALID_STATE, st)
      else
        let st1 = st\<lparr>responseReceived := False, responseBuffer := rspBuffer\<rparr>;
            st2 = st1\<lparr>trace := trace st1 @ [LinkSend (commandBuffer cmdBuffer pktType)]\<rparr>
        in
          if errCode \<noteq> NRF_SUCCESS then Inr (errCode, st2)
          else if rspBuffer = None then Inr (NRF_SUCCESS, st2)
          else
            (case wait_until T st2 inbound of
               Inl f \<Rightarrow> Inl f
             | Inr st3 \<Rightarrow>
                 if \<not> responseReceived st3 then
                   Inr (NRF_ERROR_SD_RPC_SERIALIZATION_TRANSPORT_NO_RESPONSE,
                        st3\<lparr>trace := trace st3 @ [Log LOG_WARN
                          ''Failed to receive response for command'']\<rparr>)
                 else Inr (NRF_SUCCESS, st3)))"

subsection \<open>open and close\<close>

text \<open>
  \<^verbatim>\<open>open(status_callback, event_callback, log_callback)\<close>; \<open>errorCode\<close> is what
  \<^verbatim>\<open>nextTransportLayer->open\<close> returns, \<open>tid\<close> the identifier of the thread that
  \<^verbatim>\<open>std::thread\<close> starts, a new thread that has not failed. The wait on
  \<open>eventWaitCondition\<close> is recorded; what the new thread does meanwhile is a step of its
  own (\<open>drainEventQueue\<close> below).
\<close>

definition open_transport ::
  "SerializationTransport \<Rightarrow> callback \<Rightarrow> callback \<Rightarrow> callback \<Rightarrow> status \<Rightarrow> thread_id \<Rightarrow>
   status \<times> SerializationTransport"
where
  "open_transport st status_callback event_callback log_callback errorCode tid =
     (if isOpen st then (NRF_ERROR_SD_RPC_SERIALIZATION_TRANSPORT_ALREADY_OPEN, st)
      else
        let st1 = st\<lparr>statusCallback := status_callback, eventCallback := event_callback,
                     logCallback := log_callback\<rparr>;
            st2 = st1\<lparr>trace := trace st1 @ [LinkOpen status_callback log_callback]\<rparr>
        in
          if errorCode \<noteq> NRF_SUCCESS then (errorCode, st2)
          else
            let st3 = st2\<lparr>isOpen := True\<rparr> in
            if eventThread st3 = None then
              (NRF_SUCCESS,
               st3\<lparr>processEvents := True, eventThread := Some tid,
                   eventThreadFailed := False,
                   trace := trace st3 @ [Spawn tid, Wait eventWaitCondition]\<rparr>)
            else (NRF_ERROR_SD_RPC_SERIALIZATION_TRANSPORT, st3))"

text \<open>
  \<^verbatim>\<open>close()\<close>, called by the thread \<open>caller\<close>; \<open>join_throws\<close> says whether
  \<^verbatim>\<open>eventThread.join()\<close> throws \<^verbatim>\<open>std::system_error\<close>, \<open>errorCode\<close> is what
  \<^verbatim>\<open>nextTransportLayer->close\<close> returns. A thread that has been joined is no longer
  joinable.
\<close>

definition close ::
  "SerializationTransport \<Rightarrow> thread_id \<Rightarrow> bool \<Rightarrow> status \<Rightarrow> status \<times> SerializationTransport"
where
  "close st caller join_throws errorCode =
     (let st1 = st\<lparr>processEvents := False,
                  trace := trace st @ [Notify_all eventWaitCondition]\<rparr>
      in
        case (case eventThread st1 of
                None \<Rightarrow> Inr st1
              | Some t \<Rightarrow>
                  if caller = t then Inl (NRF_ERROR_SD_RPC_SERIALIZATION_TRANSPORT, st1)
                  else if join_throws then
                    Inl (NRF_ERROR_SD_RPC_SERIALIZATION_TRANSPORT_INVALID_STATE,
                         st1\<lparr>trace := trace st1 @ [Join t]\<rparr>)
                  else Inr (st1\<lparr>eventThread := None, trace := trace st1 @ [Join t]\<rparr>))
        of
          Inl r \<Rightarrow> r
        | Inr st2 \<Rightarrow>
            if \<not> isOpen st2 then (NRF_ERROR_SD_RPC_SERIALIZATION_TRANSPORT_ALREADY_CLOSED, st2)
            else (errorCode, st2\<lparr>isOpen := False, trace := trace st2 @ [LinkClose]\<rparr>))"

subsection \<open>The event thread\<close>

definition drainEventQueue :: "SerializationTransport \<Rightarrow> SerializationTransport" where
  "drainEventQueue st = st\<lparr>eventQueue := []\<rparr>"

text \<open>
  One round of the inner loop of \<^verbatim>\<open>eventHandlingRunner\<close>, run by an event thread that
  has not failed: the oldest event is taken from the queue and decoded; \<open>errCode\<close> is what
  \<^verbatim>\<open>ble_event_dec\<close> returns. The text logged and passed to \<open>statusCallback\<close> on a
  decode failure is formatted from \<open>errCode\<close>, which stands for it in the two effects.
  \<open>statusCallback\<close> is called unchecked: an empty one throws, the handler at the end of
  the thread's body logs that, and the body returns, so that this thread has no further
  round.
\<close>

definition dispatch_event :: "SerializationTransport \<Rightarrow> status \<Rightarrow> SerializationTransport" where
  "dispatch_event st errCode =
     (case eventQueue st of
        [] \<Rightarrow> st
      | eventData # rest \<Rightarrow>
          if \<not> processEvents st \<or> eventThreadFailed st then st
          else
            let st1 = st\<lparr>eventQueue := rest\<rparr>;
                st2 = (if eventCallback st1 \<noteq> None \<and> errCode = NRF_SUCCESS
                       then st1\<lparr>trace := trace st1 @ [EventCallback eventData]\<rparr> else st1)
            in
              if errCode \<noteq> NRF_SUCCESS then
                (let st3 = st2\<lparr>trace := trace st2 @ [Log_decode_error errCode]\<rparr>
                 in if statusCallback st3 \<noteq> None
                    then st3\<lparr>trace := trace st3 @ [StatusCallback errCode]\<rparr>
                    else st3\<lparr>eventThreadFailed := True,
                           trace := trace st3 @ [Log LOG_CRITICAL
                             ''Error in SerializationTransport::eventHandlingRunner'']\<rparr>)
              else st2)"

subsection \<open>Sessions that the operations can produce\<close>

text \<open>
  The calls that change a session, each with what the environment contributes to it, and a
  session driven through a list of them. A call with no defined result ends the run.
\<close>

datatype call =
    Call_open callback callback callback status thread_id
  | Call_close thread_id bool status
  | Call_send "byte list" "byte list option" byte status "byte list list"
  | Call_readHandler "byte list" size_t
  | Call_drainEventQueue
  | Call_dispatch_event status

fun do_call :: "pkt_types \<Rightarrow> SerializationTransport \<Rightarrow> call \<Rightarrow> fault + SerializationTransport" where
  "do_call T st (Call_open scb ecb lcb errorCode tid) =
     Inr (snd (open_transport st scb ecb lcb errorCode tid))"
| "do_call T st (Call_close caller join_throws errorCode) =
     Inr (snd (close st caller join_throws errorCode))"
| "do_call T st (Call_send cmdBuffer rspBuffer pktType errCode inbound) =
     (case send T st cmdBuffer rspBuffer pktType errCode inbound of
        Inl f \<Rightarrow> Inl f
      | Inr (r, st') \<Rightarrow> Inr st')"
| "do_call T st (Call_readHandler data len) = readHandler T st data len"
| "do_call T st Call_drainEventQueue = Inr (drainEventQueue st)"
| "do_call T st (Call_dispatch_event errCode) = Inr (dispatch_event st errCode)"

fun run_calls ::
  "pkt_types \<Rightarrow> SerializationTransport \<Rightarrow> call list \<Rightarrow> fault + SerializationTransport"
where
  "run_calls T st [] = Inr st"
| "run_calls T st (c # cs) =
     (case do_call T st c of
        Inl f \<Rightarrow> Inl f
      | Inr st' \<Rightarrow> run_calls T st' cs)"

subsection \<open>Vocabulary of the statements\<close>

text \<open>An effect list in which the link layer is not asked to send anything.\<close>

definition no_LinkSend :: "effect list \<Rightarrow> bool" where
  "no_LinkSend es = (\<forall>e \<in> set es. case e of LinkSend p \<Rightarrow> False | _ \<Rightarrow> True)"

text \<open>Payloads that are not responses: a tag byte other than the response tag, then a body.\<close>

definition other_traffic :: "pkt_types \<Rightarrow> byte list list \<Rightarrow> bool" where
  "other_traffic T ps =
     (\<forall>p \<in> set ps. p \<noteq> [] \<and> hd p \<noteq> SERIALIZATION_RESPONSE T \<and> length p < 2 ^ 64)"

text \<open>
  The payloads that \<^verbatim>\<open>readHandler\<close> treats as events, and the one effect it has on a
  payload that is not a response: a notification for an event, a warning otherwise.
\<close>

definition is_event :: "pkt_types \<Rightarrow> byte list \<Rightarrow> bool" where
  "is_event T p =
     (case p of
        [] \<Rightarrow> False
      | tag # body \<Rightarrow> tag \<noteq> SERIALIZATION_RESPONSE T \<and> tag = SERIALIZATION_EVENT T)"

definition other_effect :: "pkt_types \<Rightarrow> byte list \<Rightarrow> effect" where
  "other_effect T p =
     (if is_event T p then Notify_one eventWaitCondition
      else Log LOG_WARN ''Unknown Nordic Semiconductor vendor specific packet received'')"

text \<open>
  The statuses as section 6 of the specification names them, an abstract taxonomy of the
  codes: its \<open>InvalidState\<close> covers the double spawn (line 83, the general code), \<^verbatim>\<open>close\<close>
  from the event thread (line 105, the general code), a failing join (line 114) and
  \<^verbatim>\<open>send\<close> on a closed session (line 139); a code of the link layer is passed through.
\<close>

datatype spec_status =
    Success
  | AlreadyOpen
  | AlreadyClosed
  | InvalidState
  | NoResponse
  | LinkLayerStatus nat

fun taxonomy :: "status \<Rightarrow> spec_status" where
  "taxonomy NRF_SUCCESS = Success"
| "taxonomy NRF_ERROR_SD_RPC_SERIALIZATION_TRANSPORT = InvalidState"
| "taxonomy NRF_ERROR_SD_RPC_SERIALIZATION_TRANSPORT_ALREADY_OPEN = AlreadyOpen"
| "taxonomy NRF_ERROR_SD_RPC_SERIALIZATION_TRANSPORT_ALREADY_CLOSED = AlreadyClosed"
| "taxonomy NRF_ERROR_SD_RPC_SERIALIZATION_TRANSPORT_INVALID_STATE = InvalidState"
| "taxonomy NRF_ERROR_SD_RPC_SERIALIZATION_TRANSPORT_NO_RESPONSE = NoResponse"
| "taxonomy (OTHER_STATUS n) = LinkLayerStatus n"

text \<open>
  Concrete values for the examples: the tag values 1 and 2, and a session that has been
  opened with three callbacks, the link layer accepting, the event thread getting the
  identifier 7.
\<close>

definition example_types :: pkt_types where
  "example_types = \<lparr>SERIALIZATION_RESPONSE = 1, SERIALIZATION_EVENT = 2\<rparr>"

definition example_session :: SerializationTransport where
  "example_session =
     snd (open_transport (new_SerializationTransport 1000) (Some 1) (Some 2) (Some 3) NRF_SUCCESS 7)"

section \<open>Auxiliary facts\<close>

lemma std_copy_front: "length src \<le> length d \<Longrightarrow> std_copy src d 0 = src @ drop (length src) d"
  by (simp add: std_copy_def)

lemma std_copy_back_empty: "std_copy_back src [] = src"
  by (simp add: std_copy_back_def)

lemma resize_prefix: "resize (length b) (b @ xs) = b"
  by (simp add: resize_def)

lemma commandBuffer_eq: "commandBuffer cmdBuffer pktType = pktType # cmdBuffer"
  by (simp add: commandBuffer_def std_copy_def)

lemma dataLength_succ: "dataLength (1 + w) = w"
  by (simp add: dataLength_def)

lemma unat_size: "n < 2 ^ 64 \<Longrightarrow> unat (word_of_nat n :: size_t) = n"
  by (simp add: unat_of_nat)

lemma dataLength_payload:
  assumes "Suc n < 2 ^ 64"
  shows "unat (dataLength (1 + word_of_nat n)) = n"
  using assms by (simp add: dataLength_succ unat_size)

lemma dataLength_zero: "unat (dataLength 0) = 2 ^ 64 - 1"
  by (simp add: dataLength_def unsigned_minus_1_eq_mask mask_eq_exp_minus_1)

lemma readHandler_unknown_step:
  assumes "tag \<noteq> SERIALIZATION_RESPONSE T" and "tag \<noteq> SERIALIZATION_EVENT T"
  shows "readHandler T st (tag # body) len =
           Inr (st\<lparr>trace := trace st @ [Log LOG_WARN
             ''Unknown Nordic Semiconductor vendor specific packet received'']\<rparr>)"
  using assms by (simp add: readHandler_def)

lemma dataCallback_event_step:
  assumes "tag \<noteq> SERIALIZATION_RESPONSE T" and "tag = SERIALIZATION_EVENT T"
    and "length (tag # body) < 2 ^ 64"
  shows "dataCallback T st (tag # body) =
           Inr (st\<lparr>eventQueue := eventQueue st @ [body],
                   trace := trace st @ [Notify_one eventWaitCondition]\<rparr>)"
proof -
  have n: "unat (dataLength (1 + word_of_nat (length body))) = length body"
    using assms(3) by (intro dataLength_payload) simp
  show ?thesis
    unfolding dataCallback_def readHandler_def
    using assms(1,2) by (simp add: n std_copy_back_empty)
qed

lemma readHandler_no_buffer_step:
  assumes "responseBuffer st = None \<or> responseBuffer st = Some []"
  shows "readHandler T st (SERIALIZATION_RESPONSE T # body) len =
           Inr (st\<lparr>responseReceived := True,
                   trace := trace st @ [Log LOG_ERROR
                     ''Received SERIALIZATION_RESPONSE but command did not provide a buffer for the reply.'',
                     Notify_one responseWaitCondition]\<rparr>)"
  using assms by (auto simp add: readHandler_def)

lemma dataCallback_fits_step:
  assumes "responseBuffer st = Some buf" and "buf \<noteq> []" and "length body \<le> length buf"
    and "length (SERIALIZATION_RESPONSE T # body) < 2 ^ 64"
  shows "dataCallback T st (SERIALIZATION_RESPONSE T # body) =
           Inr (st\<lparr>responseBuffer := Some body, responseReceived := True,
                   trace := trace st @ [Notify_one responseWaitCondition]\<rparr>)"
proof -
  have n: "unat (dataLength (1 + word_of_nat (length body))) = length body"
    using assms(4) by (intro dataLength_payload) simp
  have c: "resize (length body) (std_copy body buf 0) = body"
    using assms(3) by (simp add: std_copy_front resize_prefix)
  show ?thesis
    unfolding dataCallback_def readHandler_def
    using assms(1,2,3) by (simp add: n c)
qed

lemma dataCallback_too_long_step:
  assumes "responseBuffer st = Some buf" and "buf \<noteq> []" and "length buf < length body"
    and "length (SERIALIZATION_RESPONSE T # body) < 2 ^ 64"
  shows "dataCallback T st (SERIALIZATION_RESPONSE T # body) =
           Inr (st\<lparr>responseReceived := True,
                   trace := trace st @ [Log LOG_ERROR
                     ''Received SERIALIZATION_RESPONSE with a packet that is larger than the allocated buffer.'',
                     Notify_one responseWaitCondition]\<rparr>)"
proof -
  have n: "unat (dataLength (1 + word_of_nat (length body))) = length body"
    using assms(4) by (intro dataLength_payload) simp
  show ?thesis
    unfolding dataCallback_def readHandler_def
    using assms(1,2,3) by (simp add: n)
qed

lemma readHandler_frame:
  assumes "readHandler T st data len = Inr st'"
  shows "isOpen st' = isOpen st \<and> eventThread st' = eventThread st \<and>
         (\<exists>es. trace st' = trace st @ es \<and> no_LinkSend es)"
  using assms
  by (auto simp add: readHandler_def Let_def no_LinkSend_def
        split: list.splits option.splits if_splits sum.splits)

lemma no_LinkSend_append: "no_LinkSend (xs @ ys) = (no_LinkSend xs \<and> no_LinkSend ys)"
  by (auto simp add: no_LinkSend_def)

lemma no_LinkSend_Nil: "no_LinkSend []"
  by (simp add: no_LinkSend_def)

lemma dataCallback_frame:
  assumes "dataCallback T st payload = Inr st'"
  shows "isOpen st' = isOpen st \<and> eventThread st' = eventThread st \<and>
         (\<exists>es. trace st' = trace st @ es \<and> no_LinkSend es)"
  using assms unfolding dataCallback_def by (rule readHandler_frame)

lemma dataCallback_each_append:
  "dataCallback_each T st (xs @ ys) =
     (case dataCallback_each T st xs of
        Inl f \<Rightarrow> Inl f
      | Inr st' \<Rightarrow> dataCallback_each T st' ys)"
  by (induction xs arbitrary: st) (auto split: sum.splits)

lemma wait_until_frame:
  assumes "wait_until T st inbound = Inr st'"
  shows "isOpen st' = isOpen st \<and> eventThread st' = eventThread st \<and>
         (\<exists>es. trace st' = trace st @ es \<and> no_LinkSend es)"
  using assms unfolding wait_until_def
proof (induction inbound arbitrary: st)
  case Nil
  then show ?case by (simp add: no_LinkSend_Nil)
next
  case (Cons payload inbound)
  from Cons.prems obtain st1 where
    s1: "dataCallback T st payload = Inr st1" and r: "dataCallback_each T st1 inbound = Inr st'"
    by (auto split: sum.splits)
  from dataCallback_frame [OF s1] obtain es1 where
    f1: "isOpen st1 = isOpen st" "eventThread st1 = eventThread st"
        "trace st1 = trace st @ es1" "no_LinkSend es1"
    by blast
  from Cons.IH [OF r] obtain es2 where
    f2: "isOpen st' = isOpen st1" "eventThread st' = eventThread st1"
        "trace st' = trace st1 @ es2" "no_LinkSend es2"
    by blast
  have "trace st' = trace st @ (es1 @ es2)" "no_LinkSend (es1 @ es2)"
    using f1 f2 by (simp_all add: no_LinkSend_append)
  then show ?case using f1 f2 by metis
qed

lemma dataCallback_other:
  assumes "p \<noteq> []" and "hd p \<noteq> SERIALIZATION_RESPONSE T" and "length p < 2 ^ 64"
  shows "\<exists>st1. dataCallback T st p = Inr st1 \<and> responseReceived st1 = responseReceived st \<and>
           responseBuffer st1 = responseBuffer st \<and>
           (\<exists>es. trace st1 = trace st @ es \<and> no_LinkSend es)"
proof -
  from assms(1) obtain tag body where p: "p = tag # body" by (cases p) auto
  show ?thesis
  proof (cases "tag = SERIALIZATION_EVENT T")
    case True
    have "dataCallback T st (tag # body) =
            Inr (st\<lparr>eventQueue := eventQueue st @ [body],
                    trace := trace st @ [Notify_one eventWaitCondition]\<rparr>)"
      using assms(2,3) True p by (intro dataCallback_event_step) simp_all
    then show ?thesis using p by (simp add: no_LinkSend_def)
  next
    case False
    have "dataCallback T st (tag # body) =
            Inr (st\<lparr>trace := trace st @ [Log LOG_WARN
              ''Unknown Nordic Semiconductor vendor specific packet received'']\<rparr>)"
      unfolding dataCallback_def using assms(2) False p
      by (intro readHandler_unknown_step) simp_all
    then show ?thesis using p by (simp add: no_LinkSend_def)
  qed
qed

lemma dataCallback_other_step:
  assumes "p \<noteq> []" and "hd p \<noteq> SERIALIZATION_RESPONSE T" and "length p < 2 ^ 64"
  shows "dataCallback T st p =
           Inr (st\<lparr>eventQueue := eventQueue st @ (if is_event T p then [tl p] else []),
                   trace := trace st @ [other_effect T p]\<rparr>)"
proof -
  from assms(1) obtain tag body where p: "p = tag # body" by (cases p) auto
  from assms(2) p have nr: "tag \<noteq> SERIALIZATION_RESPONSE T" by simp
  show ?thesis
  proof (cases "tag = SERIALIZATION_EVENT T")
    case True
    have l: "length (tag # body) < 2 ^ 64" using assms(3) p by simp
    have e: "is_event T p" using p nr True by (simp add: is_event_def)
    from dataCallback_event_step [OF nr True l] show ?thesis
      using p e by (simp add: other_effect_def)
  next
    case False
    have e: "\<not> is_event T p" using p False by (simp add: is_event_def)
    have "dataCallback T st (tag # body) =
            Inr (st\<lparr>trace := trace st @ [Log LOG_WARN
              ''Unknown Nordic Semiconductor vendor specific packet received'']\<rparr>)"
      unfolding dataCallback_def using nr False by (rule readHandler_unknown_step)
    then show ?thesis using p e by (simp add: other_effect_def)
  qed
qed

lemma dataCallback_each_other:
  assumes "other_traffic T ps"
  shows "dataCallback_each T st ps =
           Inr (st\<lparr>eventQueue := eventQueue st @ map tl (filter (is_event T) ps),
                   trace := trace st @ map (other_effect T) ps\<rparr>)"
  using assms
proof (induction ps arbitrary: st)
  case Nil
  then show ?case by simp
next
  case (Cons p ps)
  from Cons.prems have p: "p \<noteq> []" "hd p \<noteq> SERIALIZATION_RESPONSE T" "length p < 2 ^ 64"
    and ps: "other_traffic T ps"
    by (simp_all add: other_traffic_def)
  show ?case
    by (simp add: dataCallback_other_step [OF p] Cons.IH [OF ps])
qed

lemma send_waits:
  assumes "isOpen st"
  shows "send T st cmdBuffer (Some buf) pktType NRF_SUCCESS inbound =
           (case wait_until T
                   (st\<lparr>responseReceived := False, responseBuffer := Some buf,
                       trace := trace st @ [LinkSend (pktType # cmdBuffer)]\<rparr>) inbound of
              Inl f \<Rightarrow> Inl f
            | Inr st3 \<Rightarrow>
                if \<not> responseReceived st3 then
                  Inr (NRF_ERROR_SD_RPC_SERIALIZATION_TRANSPORT_NO_RESPONSE,
                       st3\<lparr>trace := trace st3 @ [Log LOG_WARN
                         ''Failed to receive response for command'']\<rparr>)
                else Inr (NRF_SUCCESS, st3))"
  using assms by (simp add: send_def commandBuffer_eq)

lemma send_one_response:
  assumes "isOpen st" and "other_traffic T pre" and "other_traffic T post"
    and step: "\<And>s. responseBuffer s = Some buf \<Longrightarrow>
                 dataCallback T s (SERIALIZATION_RESPONSE T # b) =
                   Inr (s\<lparr>responseReceived := True, responseBuffer := Some buf',
                          trace := trace s @ es\<rparr>)"
  shows "send T st cmdBuffer (Some buf) pktType NRF_SUCCESS
           (pre @ (SERIALIZATION_RESPONSE T # b) # post) =
         Inr (NRF_SUCCESS,
              st\<lparr>responseReceived := True, responseBuffer := Some buf',
                 eventQueue := eventQueue st @ map tl (filter (is_event T) (pre @ post)),
                 trace := trace st @ LinkSend (pktType # cmdBuffer) # map (other_effect T) pre
                          @ es @ map (other_effect T) post\<rparr>)"
proof -
  let ?st2 = "st\<lparr>responseReceived := False, responseBuffer := Some buf,
                  trace := trace st @ [LinkSend (pktType # cmdBuffer)]\<rparr>"
  let ?s1 = "?st2\<lparr>eventQueue := eventQueue ?st2 @ map tl (filter (is_event T) pre),
                   trace := trace ?st2 @ map (other_effect T) pre\<rparr>"
  let ?s2 = "?s1\<lparr>responseReceived := True, responseBuffer := Some buf',
                  trace := trace ?s1 @ es\<rparr>"
  let ?s3 = "?s2\<lparr>eventQueue := eventQueue ?s2 @ map tl (filter (is_event T) post),
                  trace := trace ?s2 @ map (other_effect T) post\<rparr>"
  have 1: "dataCallback_each T ?st2 pre = Inr ?s1"
    using assms(2) by (rule dataCallback_each_other)
  have "responseBuffer ?s1 = Some buf" by simp
  then have 2: "dataCallback T ?s1 (SERIALIZATION_RESPONSE T # b) = Inr ?s2"
    by (rule step)
  have 3: "dataCallback_each T ?s2 post = Inr ?s3"
    using assms(3) by (rule dataCallback_each_other)
  have "dataCallback_each T ?st2 (pre @ (SERIALIZATION_RESPONSE T # b) # post) =
          (case dataCallback_each T ?st2 pre of
             Inl f \<Rightarrow> Inl f
           | Inr st' \<Rightarrow> dataCallback_each T st' ((SERIALIZATION_RESPONSE T # b) # post))"
    by (rule dataCallback_each_append)
  also have "\<dots> = dataCallback_each T ?s1 ((SERIALIZATION_RESPONSE T # b) # post)"
    by (simp only: 1 sum.case)
  also have "\<dots> = dataCallback_each T ?s2 post"
    by (simp only: dataCallback_each.simps 2 sum.case)
  also have "\<dots> = Inr ?s3" by (rule 3)
  finally have "wait_until T ?st2 (pre @ (SERIALIZATION_RESPONSE T # b) # post) = Inr ?s3"
    by (simp only: wait_until_def)
  then have "send T st cmdBuffer (Some buf) pktType NRF_SUCCESS
               (pre @ (SERIALIZATION_RESPONSE T # b) # post) = Inr (NRF_SUCCESS, ?s3)"
    using assms(1) by (simp add: send_waits)
  then show ?thesis by simp
qed

lemma dataCallback_defined:
  assumes "data \<noteq> []" and "length data < 2 ^ 64"
  shows "\<exists>st'. dataCallback T st data = Inr st'"
proof -
  from assms(1) obtain tag body where p: "data = tag # body" by (cases data) auto
  show ?thesis
  proof (cases "tag = SERIALIZATION_RESPONSE T")
    case False
    then show ?thesis using dataCallback_other [of data T st] assms p by auto
  next
    case True
    note rsp = this
    show ?thesis
    proof (cases "responseBuffer st = None \<or> responseBuffer st = Some []")
      case True
      then show ?thesis
        unfolding dataCallback_def p rsp by (simp add: readHandler_no_buffer_step)
    next
      case False
      then obtain buf where b: "responseBuffer st = Some buf" "buf \<noteq> []" by auto
      show ?thesis
      proof (cases "length body \<le> length buf")
        case True
        have "length (SERIALIZATION_RESPONSE T # body) < 2 ^ 64"
          using assms(2) p by simp
        from dataCallback_fits_step [OF b True this]
        show ?thesis using p rsp by simp
      next
        case False
        then have "length buf < length body" by simp
        moreover have "length (SERIALIZATION_RESPONSE T # body) < 2 ^ 64"
          using assms(2) p by simp
        ultimately have "\<exists>st'. dataCallback T st (SERIALIZATION_RESPONSE T # body) = Inr st'"
          using dataCallback_too_long_step [OF b] by blast
        then show ?thesis using p rsp by simp
      qed
    qed
  qed
qed

lemma send_frame:
  assumes "send T st cmdBuffer rspBuffer pktType errCode inbound = Inr (r, st')"
  shows "isOpen st' = isOpen st \<and> eventThread st' = eventThread st"
proof (cases "isOpen st \<and> errCode = NRF_SUCCESS \<and> rspBuffer \<noteq> None")
  case False
  with assms show ?thesis
    by (auto simp add: send_def Let_def split: if_splits)
next
  case True
  then obtain buf where b: "rspBuffer = Some buf" and e: "errCode = NRF_SUCCESS" and o: "isOpen st"
    by auto
  let ?st2 = "st\<lparr>responseReceived := False, responseBuffer := Some buf,
                  trace := trace st @ [LinkSend (pktType # cmdBuffer)]\<rparr>"
  from assms obtain st3 where w: "wait_until T ?st2 inbound = Inr st3"
      and c: "st' = st3 \<or> st' = st3\<lparr>trace := trace st3 @ [Log LOG_WARN
                         ''Failed to receive response for command'']\<rparr>"
    unfolding b e send_waits [OF o] by (auto split: sum.splits if_splits)
  from wait_until_frame [OF w] have "isOpen st3 = isOpen st" "eventThread st3 = eventThread st"
    by simp_all
  with c show ?thesis by auto
qed

lemma open_transport_thread:
  assumes "isOpen st \<or> eventThread st = None"
  shows "isOpen (snd (open_transport st scb ecb lcb errorCode tid))
         \<or> eventThread (snd (open_transport st scb ecb lcb errorCode tid)) = None"
proof (cases "isOpen st")
  case True
  then show ?thesis by (simp add: open_transport_def)
next
  case False
  with assms have "eventThread st = None" by simp
  with False show ?thesis by (simp add: open_transport_def Let_def)
qed

lemma close_thread:
  assumes "isOpen st \<or> eventThread st = None"
  shows "isOpen (snd (close st caller join_throws errorCode))
         \<or> eventThread (snd (close st caller join_throws errorCode)) = None"
proof (cases "eventThread st")
  case None
  then show ?thesis by (simp add: close_def Let_def)
next
  case (Some t)
  with assms have "isOpen st" by auto
  with Some show ?thesis by (simp add: close_def Let_def)
qed

lemma dispatch_event_thread:
  "isOpen (dispatch_event st errCode) = isOpen st
   \<and> eventThread (dispatch_event st errCode) = eventThread st"
  by (simp add: dispatch_event_def Let_def split: list.splits)

lemma do_call_thread:
  assumes "do_call T st c = Inr st'" and "isOpen st \<or> eventThread st = None"
  shows "isOpen st' \<or> eventThread st' = None"
proof (cases c)
  case (Call_open scb ecb lcb errorCode tid)
  with assms(1) have "st' = snd (open_transport st scb ecb lcb errorCode tid)" by simp
  with open_transport_thread [OF assms(2)] show ?thesis by simp
next
  case (Call_close caller join_throws errorCode)
  with assms(1) have "st' = snd (close st caller join_throws errorCode)" by simp
  with close_thread [OF assms(2)] show ?thesis by simp
next
  case (Call_send cmdBuffer rspBuffer pktType errCode inbound)
  with assms(1) obtain r where
    "send T st cmdBuffer rspBuffer pktType errCode inbound = Inr (r, st')"
    by (auto split: sum.splits)
  from send_frame [OF this] assms(2) show ?thesis by simp
next
  case (Call_readHandler data len)
  with assms(1) have "readHandler T st data len = Inr st'" by simp
  from readHandler_frame [OF this] assms(2) show ?thesis by simp
next
  case Call_drainEventQueue
  with assms show ?thesis by (auto simp add: drainEventQueue_def)
next
  case (Call_dispatch_event errCode)
  with assms(1) have "st' = dispatch_event st errCode" by simp
  with dispatch_event_thread [of st errCode] assms(2) show ?thesis by simp
qed

lemma run_calls_thread:
  assumes "run_calls T st cs = Inr st'" and "isOpen st \<or> eventThread st = None"
  shows "isOpen st' \<or> eventThread st' = None"
  using assms
proof (induction cs arbitrary: st)
  case Nil
  then show ?case by simp
next
  case (Cons c cs)
  from Cons.prems(1) obtain st1 where
    d: "do_call T st c = Inr st1" and r: "run_calls T st1 cs = Inr st'"
    by (auto split: sum.splits)
  from do_call_thread [OF d Cons.prems(2)] have "isOpen st1 \<or> eventThread st1 = None" .
  from Cons.IH [OF r this] show ?case .
qed

lemma dataCallback_queue:
  assumes "p \<noteq> []" and "length p < 2 ^ 64"
  shows "\<exists>st'. dataCallback T st p = Inr st' \<and>
           eventQueue st' = eventQueue st @ (if is_event T p then [tl p] else [])"
proof -
  from assms(1) obtain tag body where p: "p = tag # body" by (cases p) auto
  show ?thesis
  proof (cases "is_event T p")
    case True
    then have t: "tag \<noteq> SERIALIZATION_RESPONSE T" "tag = SERIALIZATION_EVENT T"
      using p by (auto simp add: is_event_def)
    have l: "length (tag # body) < 2 ^ 64" using assms(2) p by simp
    have "dataCallback T st (tag # body) =
            Inr (st\<lparr>eventQueue := eventQueue st @ [body],
                    trace := trace st @ [Notify_one eventWaitCondition]\<rparr>)"
      using t l by (rule dataCallback_event_step)
    then show ?thesis using True p by simp
  next
    case False
    from dataCallback_defined [OF assms, of T st] obtain st' where
      d: "dataCallback T st p = Inr st'" by blast
    then have "eventQueue st' = eventQueue st"
      using False p
      by (auto simp add: dataCallback_def readHandler_def Let_def is_event_def
            split: option.splits if_splits sum.splits)
    then show ?thesis using d False by simp
  qed
qed

lemma events_queued_in_arrival_order:
  assumes "\<forall>p \<in> set ps. p \<noteq> [] \<and> length p < 2 ^ 64"
  shows "\<exists>st'. dataCallback_each T st ps = Inr st' \<and>
           eventQueue st' = eventQueue st @ map tl (filter (is_event T) ps)"
  using assms
proof (induction ps arbitrary: st)
  case Nil
  then show ?case by simp
next
  case (Cons p ps)
  then have p: "p \<noteq> []" "length p < 2 ^ 64" by simp_all
  from dataCallback_queue [OF p, of T st] obtain st1 where
    s1: "dataCallback T st p = Inr st1"
        "eventQueue st1 = eventQueue st @ (if is_event T p then [tl p] else [])"
    by blast
  from Cons.prems have "\<forall>p \<in> set ps. p \<noteq> [] \<and> length p < 2 ^ 64" by simp
  from Cons.IH [OF this, of st1] obtain st' where
    s2: "dataCallback_each T st1 ps = Inr st'"
        "eventQueue st' = eventQueue st1 @ map tl (filter (is_event T) ps)"
    by blast
  show ?case using s1 s2 by simp
qed

lemma example_session_eq:
  "example_session =
     \<lparr> statusCallback = Some 1, eventCallback = Some 2, logCallback = Some 3,
       responseReceived = False, responseBuffer = None, processEvents = True,
       isOpen = True, responseTimeout = 1000, eventQueue = [],
       eventThread = Some 7, eventThreadFailed = False,
       trace = [LinkOpen (Some 1) (Some 3), Spawn 7, Wait eventWaitCondition] \<rparr>"
  by (simp add: example_session_def open_transport_def new_SerializationTransport_def)

lemma example_traffic: "other_traffic example_types [[2, 9], [4]]"
  by (simp add: other_traffic_def example_types_def)

text \<open>
  The other three places that the taxonomy gathers under \<open>InvalidState\<close>: the double spawn,
  the failing join and \<^verbatim>\<open>send\<close> on a closed session.
\<close>

lemma invalid_state_double_spawn:
  assumes "\<not> isOpen st" and "eventThread st = Some t"
  shows "taxonomy (fst (open_transport st scb ecb lcb NRF_SUCCESS tid)) = InvalidState"
  using assms by (simp add: open_transport_def Let_def)

lemma invalid_state_join_failure:
  assumes "eventThread st = Some t" and "caller \<noteq> t"
  shows "taxonomy (fst (close st caller True errorCode)) = InvalidState"
  using assms by (simp add: close_def Let_def)

lemma invalid_state_send_closed:
  assumes "\<not> isOpen st"
  shows "send T st cmdBuffer rspBuffer pktType errCode inbound =
           Inr (NRF_ERROR_SD_RPC_SERIALIZATION_TRANSPORT_INVALID_STATE, st)
         \<and> taxonomy NRF_ERROR_SD_RPC_SERIALIZATION_TRANSPORT_INVALID_STATE = InvalidState"
  using assms by (simp add: send_def)

text \<open>
  The callback writes every response that fits into the reply buffer, whether or not one
  has been received already: of two responses handled while \<^verbatim>\<open>send\<close> is blocked the
  buffer holds the second.
\<close>

lemma later_response_overwrites:
  "\<exists>st'. send example_types example_session [8] (Some [0, 0, 0]) 0 NRF_SUCCESS
           [[2, 9], [4], [1, 5, 6], [1, 7]] = Inr (NRF_SUCCESS, st')
         \<and> responseBuffer st' = Some [7]"
  by (simp add: send_def wait_until_def dataCallback_def readHandler_def dataLength_def
        std_copy_def std_copy_back_def resize_def example_session_eq example_types_def Let_def)

section \<open>The claims\<close>

text \<open>
  \<^bold>\<open>C1.\<close> A call of \<^verbatim>\<open>send\<close> on an open session, with a reply buffer \<open>buf\<close> that is
  present and not empty, which the link layer accepts. The reply, a response with a body
  \<open>b\<close> no longer than \<open>buf\<close>, reaches the callback before the deadline; it is the one
  response among the payloads handled until the sending thread runs again, with any events
  and unknown payloads before and after it. Then \<^verbatim>\<open>send\<close> returns \<open>NRF_SUCCESS\<close> and
  the reply buffer is exactly \<open>b\<close>, contents and size; the waiter has been notified once,
  and nothing has been logged for the response.
\<close>

theorem send_reply_delivered:
  assumes "isOpen st" and "buf \<noteq> []" and "length b \<le> length buf"
    and "length (SERIALIZATION_RESPONSE T # b) < 2 ^ 64"
    and "other_traffic T pre" and "other_traffic T post"
  shows "send T st cmdBuffer (Some buf) pktType NRF_SUCCESS
           (pre @ (SERIALIZATION_RESPONSE T # b) # post) =
         Inr (NRF_SUCCESS,
              st\<lparr>responseReceived := True, responseBuffer := Some b,
                 eventQueue := eventQueue st @ map tl (filter (is_event T) (pre @ post)),
                 trace := trace st @ LinkSend (pktType # cmdBuffer) # map (other_effect T) pre
                          @ [Notify_one responseWaitCondition] @ map (other_effect T) post\<rparr>)"
proof (rule send_one_response [OF assms(1,5,6)])
  fix s :: SerializationTransport
  assume "responseBuffer s = Some buf"
  then have "dataCallback T s (SERIALIZATION_RESPONSE T # b) =
               Inr (s\<lparr>responseBuffer := Some b, responseReceived := True,
                      trace := trace s @ [Notify_one responseWaitCondition]\<rparr>)"
    using assms(2,3,4) by (rule dataCallback_fits_step)
  then show "dataCallback T s (SERIALIZATION_RESPONSE T # b) =
               Inr (s\<lparr>responseReceived := True, responseBuffer := Some b,
                      trace := trace s @ [Notify_one responseWaitCondition]\<rparr>)"
    by simp
qed

theorem send_reply_delivered_witness:
  "isOpen example_session \<and> [0, 0, 0 :: byte] \<noteq> [] \<and> length [5, 6 :: byte] \<le> length [0, 0, 0 :: byte]
   \<and> other_traffic example_types [[2, 9], [4]] \<and> other_traffic example_types [[2, 3]]
   \<and> send example_types example_session [8] (Some [0, 0, 0]) 0 NRF_SUCCESS
         [[2, 9], [4], [1, 5, 6], [2, 3]] =
       Inr (NRF_SUCCESS,
            example_session\<lparr>responseReceived := True, responseBuffer := Some [5, 6],
               eventQueue := [[9], [3]],
               trace := trace example_session @
                 [LinkSend [0, 8], Notify_one eventWaitCondition,
                  Log LOG_WARN ''Unknown Nordic Semiconductor vendor specific packet received'',
                  Notify_one responseWaitCondition, Notify_one eventWaitCondition]\<rparr>)"
proof -
  have o: "isOpen example_session" by (simp add: example_session_eq)
  have l: "length (SERIALIZATION_RESPONSE example_types # [5, 6 :: byte]) < 2 ^ 64" by simp
  have t: "other_traffic example_types [[2, 3]]"
    by (simp add: other_traffic_def example_types_def)
  from send_reply_delivered [OF o _ _ l example_traffic t, of "[0, 0, 0]" "[8]" 0]
  show ?thesis using o example_traffic t
    by (simp add: example_types_def is_event_def other_effect_def example_session_eq)
qed

text \<open>
  \<^bold>\<open>C2.\<close> The same call with a reply buffer shorter than the body of the one response
  that arrives: \<^verbatim>\<open>send\<close> returns \<open>NRF_SUCCESS\<close> all the same, the reply buffer is the
  vector the caller passed, untouched, and for the response the callback has logged one
  error, that the packet is larger than the buffer (that no buffer was provided, when the
  buffer is empty), and then has notified the waiter.
\<close>

theorem send_reply_too_long:
  assumes "isOpen st" and "length buf < length b"
    and "length (SERIALIZATION_RESPONSE T # b) < 2 ^ 64"
    and "other_traffic T pre" and "other_traffic T post"
  shows "send T st cmdBuffer (Some buf) pktType NRF_SUCCESS
           (pre @ (SERIALIZATION_RESPONSE T # b) # post) =
         Inr (NRF_SUCCESS,
              st\<lparr>responseReceived := True, responseBuffer := Some buf,
                 eventQueue := eventQueue st @ map tl (filter (is_event T) (pre @ post)),
                 trace := trace st @ LinkSend (pktType # cmdBuffer) # map (other_effect T) pre
                          @ [Log LOG_ERROR
                              (if buf = []
                               then ''Received SERIALIZATION_RESPONSE but command did not provide a buffer for the reply.''
                               else ''Received SERIALIZATION_RESPONSE with a packet that is larger than the allocated buffer.''),
                             Notify_one responseWaitCondition]
                          @ map (other_effect T) post\<rparr>)"
proof (rule send_one_response [OF assms(1,4,5)])
  fix s :: SerializationTransport
  assume rb: "responseBuffer s = Some buf"
  then have same: "s\<lparr>responseBuffer := Some buf\<rparr> = s" by (cases s) simp
  let ?msg = "if buf = []
      then ''Received SERIALIZATION_RESPONSE but command did not provide a buffer for the reply.''
      else ''Received SERIALIZATION_RESPONSE with a packet that is larger than the allocated buffer.''"
  have "dataCallback T s (SERIALIZATION_RESPONSE T # b) =
          Inr (s\<lparr>responseReceived := True,
                 trace := trace s @ [Log LOG_ERROR ?msg, Notify_one responseWaitCondition]\<rparr>)"
  proof (cases "buf = []")
    case True
    then show ?thesis
      unfolding dataCallback_def using rb by (simp add: readHandler_no_buffer_step)
  next
    case False
    then show ?thesis
      using dataCallback_too_long_step [OF rb False assms(2,3)] by simp
  qed
  also have "s\<lparr>responseReceived := True,
                 trace := trace s @ [Log LOG_ERROR ?msg, Notify_one responseWaitCondition]\<rparr> =
             (s\<lparr>responseBuffer := Some buf\<rparr>)\<lparr>responseReceived := True,
                 trace := trace s @ [Log LOG_ERROR ?msg, Notify_one responseWaitCondition]\<rparr>"
    by (simp only: same)
  finally show "dataCallback T s (SERIALIZATION_RESPONSE T # b) =
          Inr (s\<lparr>responseReceived := True, responseBuffer := Some buf,
                 trace := trace s @ [Log LOG_ERROR ?msg, Notify_one responseWaitCondition]\<rparr>)"
    by simp
qed

theorem send_reply_too_long_witness:
  "isOpen example_session \<and> length [0 :: byte] < length [5, 6 :: byte]
   \<and> other_traffic example_types [[2, 9], [4]] \<and> other_traffic example_types [[2, 3]]
   \<and> send example_types example_session [8] (Some [0]) 0 NRF_SUCCESS
         [[2, 9], [4], [1, 5, 6], [2, 3]] =
       Inr (NRF_SUCCESS,
            example_session\<lparr>responseReceived := True, responseBuffer := Some [0],
               eventQueue := [[9], [3]],
               trace := trace example_session @
                 [LinkSend [0, 8], Notify_one eventWaitCondition,
                  Log LOG_WARN ''Unknown Nordic Semiconductor vendor specific packet received'',
                  Log LOG_ERROR ''Received SERIALIZATION_RESPONSE with a packet that is larger than the allocated buffer.'',
                  Notify_one responseWaitCondition, Notify_one eventWaitCondition]\<rparr>)"
proof -
  have o: "isOpen example_session" by (simp add: example_session_eq)
  have l: "length (SERIALIZATION_RESPONSE example_types # [5, 6 :: byte]) < 2 ^ 64" by simp
  have t: "other_traffic example_types [[2, 3]]"
    by (simp add: other_traffic_def example_types_def)
  from send_reply_too_long [OF o _ l example_traffic t, of "[0]" "[8]" 0]
  show ?thesis using o example_traffic t
    by (simp add: example_types_def is_event_def other_effect_def example_session_eq)
qed

text \<open>
  \<^bold>\<open>C3.\<close> \<^verbatim>\<open>close\<close> called by the event thread itself, that is by the thread whose
  identifier the joinable \<open>eventThread\<close> has: it clears \<open>processEvents\<close>, notifies the
  event condition and returns at once with a code that is \<open>InvalidState\<close> in the taxonomy of
  the specification (the macro is the general \<open>NRF_ERROR_SD_RPC_SERIALIZATION_TRANSPORT\<close>).
  Nothing else happens: no join is attempted, the link layer is not closed, the session
  stays open.
\<close>

theorem close_from_event_thread:
  assumes "eventThread st = Some caller"
  shows "close st caller join_throws errorCode =
           (NRF_ERROR_SD_RPC_SERIALIZATION_TRANSPORT,
            st\<lparr>processEvents := False, trace := trace st @ [Notify_all eventWaitCondition]\<rparr>)
         \<and> taxonomy (fst (close st caller join_throws errorCode)) = InvalidState"
  using assms by (simp add: close_def)

theorem close_from_event_thread_witness:
  "eventThread example_session = Some 7
   \<and> close example_session 7 False NRF_SUCCESS =
       (NRF_ERROR_SD_RPC_SERIALIZATION_TRANSPORT,
        example_session\<lparr>processEvents := False,
           trace := trace example_session @ [Notify_all eventWaitCondition]\<rparr>)
   \<and> taxonomy (fst (close example_session 7 False NRF_SUCCESS)) = InvalidState"
proof -
  have t: "eventThread example_session = Some 7" by (simp add: example_session_eq)
  from close_from_event_thread [OF t, of False NRF_SUCCESS] show ?thesis using t by simp
qed

text \<open>
  \<^bold>\<open>C4.\<close> The callback has a defined result exactly for the payloads that have at least
  one byte. With nothing to read, the read of \<^verbatim>\<open>data[0]\<close> is out of bounds, and the body
  length \<open>0 - 1\<close> computed in \<^verbatim>\<open>size_t\<close> wraps to \<open>2^64 - 1\<close>; with at least one byte the
  body length is the payload's length less one.
\<close>

theorem readHandler_needs_tag_byte:
  assumes "length data < 2 ^ 64"
  shows "((\<exists>st'. readHandler T st data (word_of_nat (length data)) = Inr st') \<longleftrightarrow> data \<noteq> [])
         \<and> readHandler T st [] 0 = Inl OutOfBounds
         \<and> unat (dataLength 0) = 2 ^ 64 - 1
         \<and> (data \<noteq> [] \<longrightarrow> unat (dataLength (word_of_nat (length data))) = length data - 1)"
proof -
  have e: "readHandler T st [] len = Inl OutOfBounds" for len
    by (simp add: readHandler_def)
  have 1: "(\<exists>st'. readHandler T st data (word_of_nat (length data)) = Inr st') \<longleftrightarrow> data \<noteq> []"
  proof
    assume "\<exists>st'. readHandler T st data (word_of_nat (length data)) = Inr st'"
    then show "data \<noteq> []" by (auto simp add: e)
  next
    assume "data \<noteq> []"
    then have "\<exists>st'. dataCallback T st data = Inr st'"
      using assms by (rule dataCallback_defined)
    then show "\<exists>st'. readHandler T st data (word_of_nat (length data)) = Inr st'"
      by (simp add: dataCallback_def)
  qed
  have 4: "unat (dataLength (word_of_nat (length data))) = length data - 1" if "data \<noteq> []"
  proof -
    from that obtain tag body where p: "data = tag # body" by (cases data) auto
    have "unat (dataLength (1 + word_of_nat (length body))) = length body"
      using assms p by (intro dataLength_payload) simp
    then show ?thesis using p by simp
  qed
  show ?thesis using 1 e dataLength_zero 4 by blast
qed

theorem readHandler_needs_tag_byte_witness:
  "((\<exists>st'. readHandler example_types example_session [1, 5] 2 = Inr st') \<longleftrightarrow> [1, 5 :: byte] \<noteq> [])
   \<and> readHandler example_types example_session [] 0 = Inl OutOfBounds
   \<and> unat (dataLength 0) = 2 ^ 64 - 1
   \<and> unat (dataLength (word_of_nat (length [1, 5 :: byte]))) = length [1, 5 :: byte] - 1"
proof -
  have l: "length [1, 5 :: byte] < 2 ^ 64" by simp
  from readHandler_needs_tag_byte [OF l, of example_types example_session]
  show ?thesis by simp
qed



text \<open>
  \<^bold>\<open>C6.\<close> A payload whose first byte is neither the response tag nor the event tag, with
  any body and any length argument: \<^verbatim>\<open>readHandler\<close> returns the session it was given
  with one warning appended to the trace. Every member variable, the received flag, the
  reply buffer and the event queue among them, is as before, and the trace holds no
  notification of either condition variable.
\<close>

theorem unknown_tag_only_logs:
  assumes "tag \<noteq> SERIALIZATION_RESPONSE T" and "tag \<noteq> SERIALIZATION_EVENT T"
  shows "readHandler T st (tag # body) len =
           Inr (st\<lparr>trace := trace st @ [Log LOG_WARN
             ''Unknown Nordic Semiconductor vendor specific packet received'']\<rparr>)"
  using assms by (rule readHandler_unknown_step)

theorem unknown_tag_only_logs_witness:
  "(4 :: byte) \<noteq> SERIALIZATION_RESPONSE example_types \<and> 4 \<noteq> SERIALIZATION_EVENT example_types
   \<and> readHandler example_types example_session [4, 9] 2 =
       Inr (example_session\<lparr>trace := trace example_session @ [Log LOG_WARN
             ''Unknown Nordic Semiconductor vendor specific packet received'']\<rparr>)"
proof -
  have t: "(4 :: byte) \<noteq> SERIALIZATION_RESPONSE example_types"
          "(4 :: byte) \<noteq> SERIALIZATION_EVENT example_types"
    by (simp_all add: example_types_def)
  from unknown_tag_only_logs [OF t, of example_session "[9]" 2] show ?thesis using t by simp
qed

text \<open>
  \<^bold>\<open>C7.\<close> \<^verbatim>\<open>open\<close> on an open session returns
  \<open>NRF_ERROR_SD_RPC_SERIALIZATION_TRANSPORT_ALREADY_OPEN\<close> and the session exactly as it was:
  the three callbacks are not replaced, and the trace has no call of the link layer and
  no thread spawn. \<^verbatim>\<open>close\<close> on a closed session, any session that a run of calls
  on a new object ends in and that is not open, returns \<open>NRF_ERROR_SD_RPC_SERIALIZATION_TRANSPORT_ALREADY_CLOSED\<close>
  whoever calls it.
\<close>

theorem reopen_and_reclose_refused:
  assumes "isOpen st"
    and "run_calls T (new_SerializationTransport response_timeout) cs = Inr c" and "\<not> isOpen c"
  shows "open_transport st status_callback event_callback log_callback errorCode tid =
           (NRF_ERROR_SD_RPC_SERIALIZATION_TRANSPORT_ALREADY_OPEN, st)
         \<and> fst (close c caller join_throws errorCode') =
             NRF_ERROR_SD_RPC_SERIALIZATION_TRANSPORT_ALREADY_CLOSED"
proof -
  have "isOpen (new_SerializationTransport response_timeout)
          \<or> eventThread (new_SerializationTransport response_timeout) = None"
    by (simp add: new_SerializationTransport_def)
  from run_calls_thread [OF assms(2) this] assms(3) have "eventThread c = None" by simp
  then have "fst (close c caller join_throws errorCode') =
             NRF_ERROR_SD_RPC_SERIALIZATION_TRANSPORT_ALREADY_CLOSED"
    using assms(3) by (simp add: close_def)
  moreover have "open_transport st status_callback event_callback log_callback errorCode tid =
           (NRF_ERROR_SD_RPC_SERIALIZATION_TRANSPORT_ALREADY_OPEN, st)"
    using assms(1) by (simp add: open_transport_def)
  ultimately show ?thesis by simp
qed

theorem reopen_and_reclose_refused_witness:
  "isOpen example_session
   \<and> run_calls example_types (new_SerializationTransport 1000)
         [Call_open (Some 1) (Some 2) (Some 3) NRF_SUCCESS 7, Call_close 0 False NRF_SUCCESS]
       = Inr (snd (close example_session 0 False NRF_SUCCESS))
   \<and> \<not> isOpen (snd (close example_session 0 False NRF_SUCCESS))
   \<and> open_transport example_session (Some 4) (Some 5) (Some 6) NRF_SUCCESS 8 =
        (NRF_ERROR_SD_RPC_SERIALIZATION_TRANSPORT_ALREADY_OPEN, example_session)
   \<and> fst (close (snd (close example_session 0 False NRF_SUCCESS)) 0 False NRF_SUCCESS) =
        NRF_ERROR_SD_RPC_SERIALIZATION_TRANSPORT_ALREADY_CLOSED"
proof -
  have o: "isOpen example_session" by (simp add: example_session_eq)
  have r: "run_calls example_types (new_SerializationTransport 1000)
         [Call_open (Some 1) (Some 2) (Some 3) NRF_SUCCESS 7, Call_close 0 False NRF_SUCCESS]
       = Inr (snd (close example_session 0 False NRF_SUCCESS))"
    by (simp add: example_session_def)
  have c: "\<not> isOpen (snd (close example_session 0 False NRF_SUCCESS))"
    by (simp add: example_session_eq close_def)
  from reopen_and_reclose_refused [OF o r c,
    of "Some 4" "Some 5" "Some 6" NRF_SUCCESS 8 0 False NRF_SUCCESS]
  show ?thesis using o r c by simp
qed

text \<open>
  \<^bold>\<open>C8.\<close> A payload with the event tag: the callback returns the session with the body,
  that is the payload without its first byte, appended behind the entries already queued,
  which stay as they are and where they are, and with one notification of the event
  condition. For any run of calls the queue therefore grows by the events' bodies in the
  order of arrival: lemma \<open>events_queued_in_arrival_order\<close> above.
\<close>

theorem event_appended_at_tail:
  assumes "tag = SERIALIZATION_EVENT T" and "tag \<noteq> SERIALIZATION_RESPONSE T"
    and "length (tag # body) < 2 ^ 64"
  shows "readHandler T st (tag # body) (word_of_nat (length (tag # body))) =
           Inr (st\<lparr>eventQueue := eventQueue st @ [body],
                   trace := trace st @ [Notify_one eventWaitCondition]\<rparr>)"
  using dataCallback_event_step [OF assms(2,1,3)] by (simp add: dataCallback_def)

theorem event_appended_at_tail_witness:
  "(2 :: byte) = SERIALIZATION_EVENT example_types \<and> 2 \<noteq> SERIALIZATION_RESPONSE example_types
   \<and> readHandler example_types (example_session\<lparr>eventQueue := [[1], [3, 3]]\<rparr>) [2, 9, 8] 3 =
       Inr (example_session\<lparr>eventQueue := [[1], [3, 3], [9, 8]],
              trace := trace example_session @ [Notify_one eventWaitCondition]\<rparr>)"
proof -
  have t: "(2 :: byte) = SERIALIZATION_EVENT example_types"
          "(2 :: byte) \<noteq> SERIALIZATION_RESPONSE example_types"
    by (simp_all add: example_types_def)
  have l: "length [2, 9, 8 :: byte] < 2 ^ 64" by simp
  from event_appended_at_tail [OF t l, of "example_session\<lparr>eventQueue := [[1], [3, 3]]\<rparr>"]
  show ?thesis using t by simp
qed

text \<open>
  \<^bold>\<open>C9.\<close> A reply buffer that is present but empty. For every payload and length argument
  \<^verbatim>\<open>readHandler\<close> does with it what it does with no buffer at all, the buffer staying
  the empty vector. For a response, with a body of any length, it logs that no buffer was
  provided, writes nothing, sets the received flag and notifies the waiter; and
  \<^verbatim>\<open>send\<close>, given such a buffer and one response among the payloads handled until its
  thread runs again, returns \<open>NRF_SUCCESS\<close> with the buffer still empty.
\<close>

theorem empty_buffer_as_no_buffer:
  assumes "isOpen st" and "other_traffic T pre" and "other_traffic T post"
  shows "readHandler T (s\<lparr>responseBuffer := Some []\<rparr>) data len =
           (case readHandler T (s\<lparr>responseBuffer := None\<rparr>) data len of
              Inl f \<Rightarrow> Inl f
            | Inr s' \<Rightarrow> Inr (s'\<lparr>responseBuffer := Some []\<rparr>))
         \<and> readHandler T (s\<lparr>responseBuffer := Some []\<rparr>) (SERIALIZATION_RESPONSE T # body) len =
             Inr (s\<lparr>responseBuffer := Some [], responseReceived := True,
                    trace := trace s @ [Log LOG_ERROR
                      ''Received SERIALIZATION_RESPONSE but command did not provide a buffer for the reply.'',
                      Notify_one responseWaitCondition]\<rparr>)
         \<and> send T st cmdBuffer (Some []) pktType NRF_SUCCESS
               (pre @ (SERIALIZATION_RESPONSE T # body) # post) =
             Inr (NRF_SUCCESS,
                  st\<lparr>responseReceived := True, responseBuffer := Some [],
                     eventQueue := eventQueue st @ map tl (filter (is_event T) (pre @ post)),
                     trace := trace st @ LinkSend (pktType # cmdBuffer) # map (other_effect T) pre
                              @ [Log LOG_ERROR
                                  ''Received SERIALIZATION_RESPONSE but command did not provide a buffer for the reply.'',
                                 Notify_one responseWaitCondition]
                              @ map (other_effect T) post\<rparr>)"
proof -
  have a: "readHandler T (s\<lparr>responseBuffer := Some []\<rparr>) data len =
           (case readHandler T (s\<lparr>responseBuffer := None\<rparr>) data len of
              Inl f \<Rightarrow> Inl f
            | Inr s' \<Rightarrow> Inr (s'\<lparr>responseBuffer := Some []\<rparr>))"
    by (cases data) (simp_all add: readHandler_def Let_def)
  have b: "readHandler T (s\<lparr>responseBuffer := Some []\<rparr>) (SERIALIZATION_RESPONSE T # body) len =
             Inr (s\<lparr>responseBuffer := Some [], responseReceived := True,
                    trace := trace s @ [Log LOG_ERROR
                      ''Received SERIALIZATION_RESPONSE but command did not provide a buffer for the reply.'',
                      Notify_one responseWaitCondition]\<rparr>)"
    by (simp add: readHandler_no_buffer_step)
  have c: "send T st cmdBuffer (Some []) pktType NRF_SUCCESS
               (pre @ (SERIALIZATION_RESPONSE T # body) # post) =
             Inr (NRF_SUCCESS,
                  st\<lparr>responseReceived := True, responseBuffer := Some [],
                     eventQueue := eventQueue st @ map tl (filter (is_event T) (pre @ post)),
                     trace := trace st @ LinkSend (pktType # cmdBuffer) # map (other_effect T) pre
                              @ [Log LOG_ERROR
                                  ''Received SERIALIZATION_RESPONSE but command did not provide a buffer for the reply.'',
                                 Notify_one responseWaitCondition]
                              @ map (other_effect T) post\<rparr>)"
  proof (rule send_one_response [OF assms])
    fix r :: SerializationTransport
    assume rb: "responseBuffer r = Some []"
    then have same: "r\<lparr>responseBuffer := Some []\<rparr> = r" by (cases r) simp
    have "dataCallback T r (SERIALIZATION_RESPONSE T # body) =
            Inr (r\<lparr>responseReceived := True,
                   trace := trace r @ [Log LOG_ERROR
                     ''Received SERIALIZATION_RESPONSE but command did not provide a buffer for the reply.'',
                     Notify_one responseWaitCondition]\<rparr>)"
      unfolding dataCallback_def using rb by (simp add: readHandler_no_buffer_step)
    also have "r\<lparr>responseReceived := True,
                   trace := trace r @ [Log LOG_ERROR
                     ''Received SERIALIZATION_RESPONSE but command did not provide a buffer for the reply.'',
                     Notify_one responseWaitCondition]\<rparr> =
               (r\<lparr>responseBuffer := Some []\<rparr>)\<lparr>responseReceived := True,
                   trace := trace r @ [Log LOG_ERROR
                     ''Received SERIALIZATION_RESPONSE but command did not provide a buffer for the reply.'',
                     Notify_one responseWaitCondition]\<rparr>"
      by (simp only: same)
    finally show "dataCallback T r (SERIALIZATION_RESPONSE T # body) =
            Inr (r\<lparr>responseReceived := True, responseBuffer := Some [],
                   trace := trace r @ [Log LOG_ERROR
                     ''Received SERIALIZATION_RESPONSE but command did not provide a buffer for the reply.'',
                     Notify_one responseWaitCondition]\<rparr>)"
      by simp
  qed
  show ?thesis using a b c by blast
qed

theorem empty_buffer_as_no_buffer_witness:
  "isOpen example_session
   \<and> other_traffic example_types [[2, 9], [4]] \<and> other_traffic example_types [[2, 3]]
   \<and> send example_types example_session [8] (Some []) 0 NRF_SUCCESS
         [[2, 9], [4], [1], [2, 3]] =
       Inr (NRF_SUCCESS,
            example_session\<lparr>responseReceived := True, responseBuffer := Some [],
               eventQueue := [[9], [3]],
               trace := trace example_session @
                 [LinkSend [0, 8], Notify_one eventWaitCondition,
                  Log LOG_WARN ''Unknown Nordic Semiconductor vendor specific packet received'',
                  Log LOG_ERROR ''Received SERIALIZATION_RESPONSE but command did not provide a buffer for the reply.'',
                  Notify_one responseWaitCondition, Notify_one eventWaitCondition]\<rparr>)"
proof -
  have o: "isOpen example_session" by (simp add: example_session_eq)
  have t: "other_traffic example_types [[2, 3]]"
    by (simp add: other_traffic_def example_types_def)
  from empty_buffer_as_no_buffer [OF o example_traffic t, of _ _ _ "[]" "[8]" 0]
  show ?thesis using o example_traffic t
    by (simp add: example_types_def is_event_def other_effect_def example_session_eq)
qed

end
